theory Spec2Isabelle
  imports Complex_Main "HOL-Library.Product_Lexorder"
begin

section \<open>The rent ledger of propmanager: invoices, payments, history, settlements\<close>

text \<open>
  The development embeds the five mutating route handlers of \<^verbatim>\<open>server/routes.ts\<close>
  (\<^verbatim>\<open>POST /api/invoices/generate\<close>, \<^verbatim>\<open>POST /api/invoices/:id/pay\<close>,
  \<^verbatim>\<open>POST /api/units/:unitId/reconstruct-history\<close>,
  \<^verbatim>\<open>POST /api/properties/:propertyId/calculate-settlements\<close> and \<^verbatim>\<open>POST /api/payments\<close>)
  together with the methods of \<^verbatim>\<open>DatabaseStorage\<close> they call.

  Conventions of the embedding.
  \<^item> A table is the list of its rows in insertion order; an identity column is a counter
    kept in the store. Constraints of the database engine (rounding to the scale of a
    decimal column, foreign keys) are not part of the handlers and are not modelled.
  \<^item> A JavaScript number is \<open>NaN\<close>, an infinity or an exact rational: the rounding of
    IEEE doubles and negative zero are not modelled.
  \<^item> A decimal column is held as the number its string denotes, so \<^verbatim>\<open>parseFloat\<close> of a
    stored decimal is that number and \<^verbatim>\<open>String(n)\<close> written to one is \<open>n\<close>.
  \<^item> A handler returns \<open>Inl\<close> of an error where the route answers 400 or 404 and returns
    early; nothing has been written at that point, so the caller keeps its store.
  \<^item> The session user (\<^verbatim>\<open>req.user!.id\<close>) is a parameter; \<^verbatim>\<open>requireAuth\<close> has passed.
  \<^item> Columns that no modelled handler reads or writes (names, phone numbers, creation
    timestamps, the serialised old and new values of an audit entry) are left out.
\<close>

subsection \<open>JavaScript numbers\<close>

datatype jsnum = NaN | PInf | NInf | Fin rat

text \<open>\<^verbatim>\<open>a < b\<close>: false as soon as one side is \<open>NaN\<close>.\<close>

fun jlt :: "jsnum \<Rightarrow> jsnum \<Rightarrow> bool" where
  "jlt (Fin a) (Fin b) = (a < b)"
| "jlt (Fin a) PInf = True"
| "jlt NInf (Fin b) = True"
| "jlt NInf PInf = True"
| "jlt _ _ = False"

definition jgt :: "jsnum \<Rightarrow> jsnum \<Rightarrow> bool" where
  "jgt a b = jlt b a"

text \<open>\<^verbatim>\<open>a >= b\<close>: neither side is \<open>NaN\<close> and \<open>a < b\<close> does not hold.\<close>

definition jge :: "jsnum \<Rightarrow> jsnum \<Rightarrow> bool" where
  "jge a b = (a \<noteq> NaN \<and> b \<noteq> NaN \<and> \<not> jlt a b)"

definition jle :: "jsnum \<Rightarrow> jsnum \<Rightarrow> bool" where
  "jle a b = jge b a"

fun jneg :: "jsnum \<Rightarrow> jsnum" where
  "jneg NaN = NaN"
| "jneg PInf = NInf"
| "jneg NInf = PInf"
| "jneg (Fin a) = Fin (- a)"

fun jadd :: "jsnum \<Rightarrow> jsnum \<Rightarrow> jsnum" where
  "jadd (Fin a) (Fin b) = Fin (a + b)"
| "jadd NaN _ = NaN"
| "jadd _ NaN = NaN"
| "jadd PInf NInf = NaN"
| "jadd NInf PInf = NaN"
| "jadd PInf _ = PInf"
| "jadd NInf _ = NInf"
| "jadd _ PInf = PInf"
| "jadd _ NInf = NInf"

definition jsub :: "jsnum \<Rightarrow> jsnum \<Rightarrow> jsnum" where
  "jsub a b = jadd a (jneg b)"

fun jabs :: "jsnum \<Rightarrow> jsnum" where
  "jabs NaN = NaN"
| "jabs PInf = PInf"
| "jabs NInf = PInf"
| "jabs (Fin a) = Fin \<bar>a\<bar>"

text \<open>The sign of a number, for products and quotients with an infinity.\<close>

fun jsign :: "jsnum \<Rightarrow> int" where
  "jsign NaN = 0"
| "jsign PInf = 1"
| "jsign NInf = - 1"
| "jsign (Fin a) = (if a < 0 then - 1 else if a = 0 then 0 else 1)"

definition signedInf :: "int \<Rightarrow> jsnum" where
  "signedInf k = (if k < 0 then NInf else if k = 0 then NaN else PInf)"


text \<open>
  \<^verbatim>\<open>a / b\<close>. A finite number over zero is an infinity of the sign of the numerator and
  \<open>0 / 0\<close> is \<open>NaN\<close>; the zero divisors of the handlers (\<^verbatim>\<open>1 + rate\<close>) are positive zeros.
\<close>

fun jdiv :: "jsnum \<Rightarrow> jsnum \<Rightarrow> jsnum" where
  "jdiv (Fin a) (Fin b) = (if b = 0 then signedInf (jsign (Fin a)) else Fin (a / b))"
| "jdiv NaN _ = NaN"
| "jdiv _ NaN = NaN"
| "jdiv (Fin a) _ = Fin 0"
| "jdiv PInf (Fin b) = (if b < 0 then NInf else PInf)"
| "jdiv NInf (Fin b) = (if b < 0 then PInf else NInf)"
| "jdiv _ _ = NaN"

text \<open>\<^verbatim>\<open>Math.round\<close>: the nearest integer, a tie going up.\<close>

fun jround :: "jsnum \<Rightarrow> jsnum" where
  "jround (Fin a) = Fin (of_int \<lfloor>a + 1 / 2\<rfloor>)"
| "jround x = x"

subsection \<open>Values of a request body\<close>

datatype jsval = JUndefined | JNull | JBool bool | JNumber jsnum | JString string

text \<open>Truthiness, as \<^verbatim>\<open>!x\<close> and \<^verbatim>\<open>x || y\<close> test it.\<close>

fun truthy :: "jsval \<Rightarrow> bool" where
  "truthy JUndefined = False"
| "truthy JNull = False"
| "truthy (JBool b) = b"
| "truthy (JNumber n) = (n \<noteq> NaN \<and> n \<noteq> Fin 0)"
| "truthy (JString s) = (s \<noteq> [])"

definition isDigit :: "char \<Rightarrow> bool" where
  "isDigit c = (c \<in> set ''0123456789'')"

definition isSpace :: "char \<Rightarrow> bool" where
  "isSpace c = (c \<in> set [CHR '' '', CHR 0x09, CHR 0x0A, CHR 0x0B, CHR 0x0C, CHR 0x0D])"

definition digitsValue :: "string \<Rightarrow> nat" where
  "digitsValue ds = foldl (\<lambda>a c. 10 * a + (of_char c - 48)) 0 ds"

text \<open>The exponent part of a decimal literal: \<open>e\<close> or \<open>E\<close>, a sign, at least one digit.\<close>

fun exponentOf :: "string \<Rightarrow> int" where
  "exponentOf (e # r) =
     (if e = CHR ''e'' \<or> e = CHR ''E'' then
        (case r of
           [] \<Rightarrow> 0
         | c # r' \<Rightarrow>
             if c = CHR ''-'' then (if takeWhile isDigit r' = [] then 0
                                    else - int (digitsValue (takeWhile isDigit r')))
             else if c = CHR ''+'' then int (digitsValue (takeWhile isDigit r'))
             else int (digitsValue (takeWhile isDigit r)))
      else 0)"
| "exponentOf [] = 0"

definition scale10 :: "rat \<Rightarrow> int \<Rightarrow> rat" where
  "scale10 q e = (if e < 0 then q / 10 ^ nat (- e) else q * 10 ^ nat e)"

text \<open>
  \<^verbatim>\<open>parseFloat\<close> on a string: leading white space is skipped, then the longest prefix that
  is a decimal literal is read; no such prefix gives \<open>NaN\<close>.
\<close>

definition parseFloatStr :: "string \<Rightarrow> jsnum" where
  "parseFloatStr s =
     (let t = dropWhile isSpace s;
          neg = (case t of [] \<Rightarrow> False | c # _ \<Rightarrow> c = CHR ''-'');
          u = (case t of [] \<Rightarrow> [] | c # r \<Rightarrow> if c = CHR ''-'' \<or> c = CHR ''+'' then r else t)
      in if take 8 u = ''Infinity'' then (if neg then NInf else PInf)
         else
           let ip = takeWhile isDigit u;
               r1 = dropWhile isDigit u;
               dot = (case r1 of [] \<Rightarrow> False | c # _ \<Rightarrow> c = CHR ''.'');
               fp = (if dot then takeWhile isDigit (tl r1) else []);
               r2 = (if dot then dropWhile isDigit (tl r1) else r1);
               m = of_nat (digitsValue ip) + of_nat (digitsValue fp) / 10 ^ length fp
           in if ip = [] \<and> fp = [] then NaN
              else Fin (scale10 (if neg then - m else m) (exponentOf r2)))"

text \<open>
  \<^verbatim>\<open>parseFloat\<close> on any value converts it to a string first: a number reads back as itself,
  \<^verbatim>\<open>"undefined"\<close>, \<^verbatim>\<open>"null"\<close>, \<^verbatim>\<open>"true"\<close> and \<^verbatim>\<open>"false"\<close> are not numerals.
\<close>

fun parseFloat :: "jsval \<Rightarrow> jsnum" where
  "parseFloat (JString s) = parseFloatStr s"
| "parseFloat (JNumber n) = n"
| "parseFloat _ = NaN"

subsection \<open>Dates\<close>

text \<open>
  The clock is an injected capability: the local wall-clock reading of \<^verbatim>\<open>new Date()\<close>
  (calendar year, month 1..12, day of the month, milliseconds since local midnight) and the
  date string \<^verbatim>\<open>new Date().toISOString().split("T")[0]\<close>.
\<close>

record clock =
  nowYear :: int
  nowMonth :: int
  nowDay :: int
  nowMsOfDay :: int
  nowIsoDate :: string

text \<open>Days from 1970-01-01 to the given day of the proleptic Gregorian calendar (month 1..12).\<close>

definition daysFromCivil :: "int \<Rightarrow> int \<Rightarrow> int \<Rightarrow> int" where
  "daysFromCivil y m d =
     (let y' = (if m \<le> 2 then y - 1 else y);
          era = y' div 400;
          yoe = y' - era * 400;
          mp = (m + 9) mod 12;
          doy = (153 * mp + 2) div 5 + d - 1;
          doe = yoe * 365 + yoe div 4 - yoe div 100 + doy
      in era * 146097 + doe - 719468)"

text \<open>
  \<^verbatim>\<open>MakeDay\<close> of the language definition: a month index outside 0..11 carries into the
  year, a day outside the month carries into the neighbouring months.
\<close>

definition makeDay :: "int \<Rightarrow> int \<Rightarrow> int \<Rightarrow> int" where
  "makeDay year monthIndex date =
     daysFromCivil (year + monthIndex div 12) (monthIndex mod 12 + 1) 1 + date - 1"

definition msPerDay :: int where
  "msPerDay = 86400000"

text \<open>
  \<^verbatim>\<open>new Date(year, monthIndex, day)\<close>: local midnight at the start of that day, as
  milliseconds of local time. Years 0..99 mean 1900..1999; a time value beyond
  8.64e15 ms is an invalid date (\<open>None\<close>).
\<close>

definition newDate :: "int \<Rightarrow> int \<Rightarrow> int \<Rightarrow> int option" where
  "newDate year monthIndex day =
     (let yr = (if 0 \<le> year \<and> year \<le> 99 then 1900 + year else year);
          tv = makeDay yr monthIndex day * msPerDay
      in if \<bar>tv\<bar> \<le> 8640000000000000 then Some tv else None)"

text \<open>The time value of \<^verbatim>\<open>new Date()\<close>, on the same local scale.\<close>

definition clockTime :: "clock \<Rightarrow> int option" where
  "clockTime c =
     Some (makeDay (nowYear c) (nowMonth c - 1) (nowDay c) * msPerDay + nowMsOfDay c)"

text \<open>\<^verbatim>\<open>a > b\<close> on two dates compares their time values; an invalid date compares false.\<close>

fun dateGt :: "int option \<Rightarrow> int option \<Rightarrow> bool" where
  "dateGt (Some a) (Some b) = (a > b)"
| "dateGt _ _ = False"

subsection \<open>The ledger store\<close>

datatype payment_status = Paid | Late | Partial | Unpaid
datatype user_role = SuperAdmin | PropertyOwner | CoOwner | Accountant | TenantRole
datatype access_status = Pending | Approved | Rejected
datatype match_status = Matched | Unmatched

record unit_row =
  u_id :: int
  u_propertyId :: int
  u_monthlyRent :: jsnum

record tenant =
  t_id :: int
  t_unitId :: int
  t_rentDueDay :: int
  t_isActive :: int

text \<open>
  The notes of a reconstructed invoice are the template
  \<^verbatim>\<open>Reconstructed: ${yearlyIncreasePercent}% annual increase from PKR ${currentRent}\<close>;
  the model keeps the two interpolated request values.
\<close>

datatype invoice_note = Reconstructed jsval jsval

record invoice =
  inv_id :: int
  inv_tenantId :: int
  inv_unitId :: int
  inv_month :: int
  inv_year :: int
  inv_amount :: jsnum
  inv_status :: payment_status
  inv_paidAmount :: "jsnum option"
  inv_paidDate :: "string option"
  inv_paymentMethod :: "string option"
  inv_receiptNumber :: "string option"
  inv_isHistorical :: int
  inv_notes :: "invoice_note option"

record property_user =
  pu_id :: int
  pu_userId :: int
  pu_propertyId :: int
  pu_role :: user_role
  pu_status :: access_status
  pu_ownershipPercent :: "jsnum option"

record owner_settlement =
  os_id :: int
  os_propertyId :: int
  os_userId :: int
  os_month :: int
  os_year :: int
  os_totalRent :: jsnum
  os_ownerShare :: jsnum
  os_amountDistributed :: jsnum
  os_balance :: jsnum

record payment =
  pay_id :: int
  pay_amount :: jsnum
  pay_date :: string
  pay_matchedInvoiceId :: "int option"
  pay_status :: match_status
  pay_tenantName :: "string option"

record audit_log =
  al_userId :: int
  al_action :: string
  al_tableName :: string
  al_recordId :: int

record store =
  units :: "unit_row list"
  tenants :: "tenant list"
  rentInvoices :: "invoice list"
  propertyUsers :: "property_user list"
  ownerSettlements :: "owner_settlement list"
  payments :: "payment list"
  auditLogs :: "audit_log list"
  nextInvoiceId :: int
  nextSettlementId :: int
  nextPaymentId :: int

subsection \<open>DatabaseStorage\<close>


definition getUnit :: "store \<Rightarrow> int \<Rightarrow> unit_row option" where
  "getUnit s i = find (\<lambda>u. u_id u = i) (units s)"

definition getTenants :: "store \<Rightarrow> tenant list" where
  "getTenants s = tenants s"

definition getTenantsByUnit :: "store \<Rightarrow> int \<Rightarrow> tenant list" where
  "getTenantsByUnit s unitId = filter (\<lambda>t. t_unitId t = unitId) (tenants s)"

definition getTenant :: "store \<Rightarrow> int \<Rightarrow> tenant option" where
  "getTenant s i = find (\<lambda>t. t_id t = i) (tenants s)"

text \<open>
  \<^verbatim>\<open>orderBy(desc(year), desc(month))\<close>: newest period first; rows of one period keep
  their table order.
\<close>

definition getRentInvoices :: "store \<Rightarrow> invoice list" where
  "getRentInvoices s = sort_key (\<lambda>i. (- inv_year i, - inv_month i)) (rentInvoices s)"

definition getRentInvoice :: "store \<Rightarrow> int \<Rightarrow> invoice option" where
  "getRentInvoice s i = find (\<lambda>r. inv_id r = i) (rentInvoices s)"

text \<open>An insert takes the next value of the identity column and returns the stored row.\<close>

definition createRentInvoice :: "store \<Rightarrow> invoice \<Rightarrow> store \<times> invoice" where
  "createRentInvoice s data =
     (let row = data\<lparr>inv_id := nextInvoiceId s\<rparr>
      in (s\<lparr>rentInvoices := rentInvoices s @ [row], nextInvoiceId := nextInvoiceId s + 1\<rparr>, row))"

text \<open>
  An update sets the given columns (the function \<open>upd\<close>) on every row with the id and
  returns the first updated row, \<open>None\<close> when there is none.
\<close>

definition updateRentInvoice :: "store \<Rightarrow> int \<Rightarrow> (invoice \<Rightarrow> invoice) \<Rightarrow> store \<times> invoice option" where
  "updateRentInvoice s i upd =
     (let rows = map (\<lambda>r. if inv_id r = i then upd r else r) (rentInvoices s)
      in (s\<lparr>rentInvoices := rows\<rparr>, map_option upd (find (\<lambda>r. inv_id r = i) (rentInvoices s))))"

definition getRentInvoicesByMonth :: "store \<Rightarrow> int \<Rightarrow> int \<Rightarrow> invoice list" where
  "getRentInvoicesByMonth s month year =
     filter (\<lambda>r. inv_month r = month \<and> inv_year r = year) (rentInvoices s)"



text \<open>
  The payload of an insert into \<^verbatim>\<open>payments\<close> (\<^verbatim>\<open>insertPaymentSchema\<close>): the status and the
  matched invoice are optional, and the column default of the status is \<^verbatim>\<open>unmatched\<close>.
\<close>

record insert_payment =
  ip_amount :: jsnum
  ip_date :: string
  ip_matchedInvoiceId :: "int option"
  ip_status :: "match_status option"
  ip_tenantName :: "string option"

definition createPayment :: "store \<Rightarrow> insert_payment \<Rightarrow> store \<times> payment" where
  "createPayment s data =
     (let row = \<lparr>pay_id = nextPaymentId s, pay_amount = ip_amount data, pay_date = ip_date data,
                 pay_matchedInvoiceId = ip_matchedInvoiceId data,
                 pay_status = (case ip_status data of None \<Rightarrow> Unmatched | Some st \<Rightarrow> st),
                 pay_tenantName = ip_tenantName data\<rparr>
      in (s\<lparr>payments := payments s @ [row], nextPaymentId := nextPaymentId s + 1\<rparr>, row))"

definition updatePayment :: "store \<Rightarrow> int \<Rightarrow> (payment \<Rightarrow> payment) \<Rightarrow> store" where
  "updatePayment s i upd =
     s\<lparr>payments := map (\<lambda>r. if pay_id r = i then upd r else r) (payments s)\<rparr>"

definition createAuditLog :: "store \<Rightarrow> audit_log \<Rightarrow> store" where
  "createAuditLog s entry = s\<lparr>auditLogs := auditLogs s @ [entry]\<rparr>"

subsection \<open>Errors of the routes\<close>

text \<open>
  \<open>NotFound\<close> is 404 \<^verbatim>\<open>Not found\<close>, \<open>UnitNotFound\<close> is 404 \<^verbatim>\<open>Unit not found\<close>; the others
  are 400: \<^verbatim>\<open>Payment amount cannot be negative\<close>, \<^verbatim>\<open>Payment amount cannot exceed invoice total\<close>,
  \<^verbatim>\<open>month and year required\<close>, \<^verbatim>\<open>currentRent and yearlyIncreasePercent required\<close>.
\<close>

datatype error =
    NotFound
  | UnitNotFound
  | AmountNegative
  | AmountExceedsTotal
  | MonthYearRequired
  | RentAndIncreaseRequired


subsection \<open>POST /api/invoices/:id/pay\<close>

text \<open>
  \<^verbatim>\<open>paidAmount || invoice.amount\<close> and \<^verbatim>\<open>paymentMethod || "cash"\<close> take the default for every
  falsy value; the payment method is a string or absent.
\<close>

definition payInvoice ::
  "clock \<Rightarrow> store \<Rightarrow> int \<Rightarrow> int \<Rightarrow> jsval \<Rightarrow> string option \<Rightarrow> error + (store \<times> invoice option)" where
  "payInvoice c s userId invoiceId paidAmount paymentMethod =
     (case getRentInvoice s invoiceId of
        None \<Rightarrow> Inl NotFound
      | Some invoice \<Rightarrow>
          let paid = (if truthy paidAmount then parseFloat paidAmount else inv_amount invoice);
              total = inv_amount invoice
          in if jlt paid (Fin 0) then Inl AmountNegative
             else if jgt paid total then Inl AmountExceedsTotal
             else
               let status =
                     (if jge paid total then
                        let tenant = getTenant s (inv_tenantId invoice);
                            dueDay = (case tenant of
                                        None \<Rightarrow> 1
                                      | Some t \<Rightarrow> if t_rentDueDay t = 0 then 1 else t_rentDueDay t);
                            today = clockTime c;
                            dueDate = newDate (inv_year invoice) (inv_month invoice - 1) dueDay
                        in if dateGt today dueDate then Late else Paid
                      else Partial);
                   method = (case paymentMethod of
                               None \<Rightarrow> ''cash''
                             | Some m \<Rightarrow> if m = [] then ''cash'' else m);
                   (s1, updated) =
                     updateRentInvoice s (inv_id invoice)
                       (\<lambda>r. r\<lparr>inv_status := status, inv_paidAmount := Some paid,
                               inv_paidDate := Some (nowIsoDate c),
                               inv_paymentMethod := Some method\<rparr>);
                   s2 = createAuditLog s1
                          \<lparr>al_userId = userId, al_action = ''mark_payment'',
                           al_tableName = ''rent_invoices'', al_recordId = inv_id invoice\<rparr>
               in Inr (s2, updated))"

subsection \<open>POST /api/invoices/generate\<close>

text \<open>\<^verbatim>\<open>String(n)\<close> of an integer and \<^verbatim>\<open>padStart(2, "0")\<close>.\<close>

definition digitChar :: "nat \<Rightarrow> char" where
  "digitChar d = ''0123456789'' ! d"

fun showNat :: "nat \<Rightarrow> string" where
  "showNat n = (if n < 10 then [digitChar n] else showNat (n div 10) @ [digitChar (n mod 10)])"

definition showInt :: "int \<Rightarrow> string" where
  "showInt i = (if i < 0 then CHR ''-'' # showNat (nat (- i)) else showNat (nat i))"

definition padStart2 :: "string \<Rightarrow> string" where
  "padStart2 t = replicate (2 - length t) CHR ''0'' @ t"

definition receiptNumber :: "string \<Rightarrow> int \<Rightarrow> int \<Rightarrow> int \<Rightarrow> string" where
  "receiptNumber prefix year month i =
     prefix @ showInt year @ padStart2 (showInt month) @ ''-'' @ showInt i"

text \<open>The invoice the generator inserts for a tenant; the id is assigned by the insert.\<close>

definition generatedInvoice :: "int \<Rightarrow> int \<Rightarrow> tenant \<Rightarrow> unit_row \<Rightarrow> invoice" where
  "generatedInvoice month year t unit =
     \<lparr>inv_id = 0, inv_tenantId = t_id t, inv_unitId = t_unitId t, inv_month = month,
      inv_year = year, inv_amount = u_monthlyRent unit, inv_status = Unpaid,
      inv_paidAmount = Some (Fin 0), inv_paidDate = None, inv_paymentMethod = None,
      inv_receiptNumber = Some (receiptNumber ''INV-'' year month (t_id t)),
      inv_isHistorical = 0, inv_notes = None\<rparr>"

text \<open>The loop over the active tenants; \<open>existingTenantIds\<close> is computed once, before it.\<close>

fun generateLoop ::
  "int \<Rightarrow> int \<Rightarrow> int list \<Rightarrow> tenant list \<Rightarrow> store \<Rightarrow> invoice list \<Rightarrow> store \<times> invoice list" where
  "generateLoop month year existingTenantIds [] s created = (s, created)"
| "generateLoop month year existingTenantIds (t # ts) s created =
     (if t_id t \<in> set existingTenantIds then
        generateLoop month year existingTenantIds ts s created
      else
        (case getUnit s (t_unitId t) of
           None \<Rightarrow> generateLoop month year existingTenantIds ts s created
         | Some unit \<Rightarrow>
             (case createRentInvoice s (generatedInvoice month year t unit) of
                (s', invoice) \<Rightarrow>
                  generateLoop month year existingTenantIds ts s' (created @ [invoice]))))"

text \<open>Month and year are integers of the body; \<^verbatim>\<open>!month || !year\<close> rejects a zero.\<close>

definition generateInvoices :: "store \<Rightarrow> int \<Rightarrow> int \<Rightarrow> error + (store \<times> invoice list)" where
  "generateInvoices s month year =
     (if month = 0 \<or> year = 0 then Inl MonthYearRequired
      else
        let allTenants = getTenants s;
            activeTenants = filter (\<lambda>t. t_isActive t = 1) allTenants;
            existingInvoices = getRentInvoicesByMonth s month year;
            existingTenantIds = map inv_tenantId existingInvoices
        in Inr (generateLoop month year existingTenantIds activeTenants s []))"

subsection \<open>POST /api/units/:unitId/reconstruct-history\<close>

record yearly_rent =
  yr_year :: int
  yr_rent :: jsnum

text \<open>
  \<^verbatim>\<open>for (let y = currentYear; y >= sYear; y--)\<close>: the rounded rent of the year is put in
  front of the list, then the rent is divided by \<open>1 + rate\<close> unless \<open>y\<close> is the start year.
\<close>

function yearlyRentsLoop ::
  "int \<Rightarrow> int \<Rightarrow> jsnum \<Rightarrow> jsnum \<Rightarrow> yearly_rent list \<Rightarrow> yearly_rent list" where
  "yearlyRentsLoop y sYear rate rent yearlyRents =
     (if y \<ge> sYear then
        yearlyRentsLoop (y - 1) sYear rate
          (if y > sYear then jdiv rent (jadd (Fin 1) rate) else rent)
          (\<lparr>yr_year = y, yr_rent = jround rent\<rparr> # yearlyRents)
      else yearlyRents)"
  by pat_completeness auto
termination
  by (relation "measure (\<lambda>(y, sYear, rate, rent, yearlyRents). nat (y + 1 - sYear))") auto

declare yearlyRentsLoop.simps [simp del]

definition historicalInvoice :: "int \<Rightarrow> yearly_rent \<Rightarrow> int \<Rightarrow> tenant \<Rightarrow> jsval \<Rightarrow> jsval \<Rightarrow> invoice" where
  "historicalInvoice unitId yr m t yearlyIncreasePercent currentRent =
     \<lparr>inv_id = 0, inv_tenantId = t_id t, inv_unitId = unitId, inv_month = m,
      inv_year = yr_year yr, inv_amount = yr_rent yr, inv_status = Unpaid,
      inv_paidAmount = Some (Fin 0), inv_paidDate = None, inv_paymentMethod = None,
      inv_receiptNumber = Some (receiptNumber ''HIST-'' (yr_year yr) m unitId),
      inv_isHistorical = 1, inv_notes = Some (Reconstructed yearlyIncreasePercent currentRent)\<rparr>"

text \<open>
  The body of the loop over the months: nothing happens when an invoice of the unit exists
  for the month, or when the unit has no tenant row; otherwise one invoice is inserted for
  the first active tenant of the unit, or for its first tenant when none is active.
\<close>

definition monthStep ::
  "int \<Rightarrow> yearly_rent \<Rightarrow> jsval \<Rightarrow> jsval \<Rightarrow> int \<Rightarrow> store \<Rightarrow> store \<times> invoice option" where
  "monthStep unitId yr yearlyIncreasePercent currentRent m s =
     (let existing = getRentInvoicesByMonth s m (yr_year yr);
          alreadyExists = find (\<lambda>inv. inv_unitId inv = unitId) existing
      in case alreadyExists of
           Some _ \<Rightarrow> (s, None)
         | None \<Rightarrow>
             let tenantsByUnit = getTenantsByUnit s unitId;
                 activeTenant =
                   (case find (\<lambda>t. t_isActive t = 1) tenantsByUnit of
                      Some t \<Rightarrow> Some t
                    | None \<Rightarrow> (case tenantsByUnit of [] \<Rightarrow> None | t # _ \<Rightarrow> Some t))
             in (case activeTenant of
                   None \<Rightarrow> (s, None)
                 | Some t \<Rightarrow>
                     (case createRentInvoice s
                             (historicalInvoice unitId yr m t yearlyIncreasePercent currentRent) of
                        (s', invoice) \<Rightarrow> (s', Some invoice))))"

function monthLoop ::
  "int \<Rightarrow> yearly_rent \<Rightarrow> jsval \<Rightarrow> jsval \<Rightarrow> int \<Rightarrow> int \<Rightarrow> store \<Rightarrow> invoice list
     \<Rightarrow> store \<times> invoice list" where
  "monthLoop unitId yr yearlyIncreasePercent currentRent m endMonth s created =
     (if m \<le> endMonth then
        (case monthStep unitId yr yearlyIncreasePercent currentRent m s of
           (s', r) \<Rightarrow>
             monthLoop unitId yr yearlyIncreasePercent currentRent (m + 1) endMonth s'
               (case r of None \<Rightarrow> created | Some invoice \<Rightarrow> created @ [invoice]))
      else (s, created))"
  by pat_completeness auto
termination
  by (relation "measure (\<lambda>(unitId, yr, p, r, m, endMonth, s, created). nat (endMonth + 1 - m))") auto

declare monthLoop.simps [simp del]

fun yearLoop ::
  "int \<Rightarrow> jsval \<Rightarrow> jsval \<Rightarrow> int \<Rightarrow> int \<Rightarrow> int \<Rightarrow> int \<Rightarrow> yearly_rent list \<Rightarrow> store
     \<Rightarrow> invoice list \<Rightarrow> store \<times> invoice list" where
  "yearLoop unitId yearlyIncreasePercent currentRent currentYear currentMonth sYear sMonth [] s created =
     (s, created)"
| "yearLoop unitId yearlyIncreasePercent currentRent currentYear currentMonth sYear sMonth (yr # yrs) s created =
     (let endMonth = (if yr_year yr = currentYear then currentMonth else 12);
          beginMonth = (if yr_year yr = sYear then sMonth else 1)
      in case monthLoop unitId yr yearlyIncreasePercent currentRent beginMonth endMonth s created of
           (s', created') \<Rightarrow>
             yearLoop unitId yearlyIncreasePercent currentRent currentYear currentMonth sYear sMonth
               yrs s' created')"

text \<open>\<^verbatim>\<open>startYear || 2015\<close> and \<^verbatim>\<open>startMonth || 1\<close> on an optional integer of the body.\<close>

definition orDefault :: "int option \<Rightarrow> int \<Rightarrow> int" where
  "orDefault v d = (case v of None \<Rightarrow> d | Some n \<Rightarrow> if n = 0 then d else n)"

record reconstruction =
  rc_generated :: nat
  rc_yearlyRents :: "yearly_rent list"
  rc_invoices :: "invoice list"

definition yearlyRentsOf :: "clock \<Rightarrow> jsval \<Rightarrow> jsval \<Rightarrow> int option \<Rightarrow> yearly_rent list" where
  "yearlyRentsOf c currentRent yearlyIncreasePercent startYear =
     yearlyRentsLoop (nowYear c) (orDefault startYear 2015)
       (jdiv (parseFloat yearlyIncreasePercent) (Fin 100)) (parseFloat currentRent) []"

definition reconstructHistory ::
  "clock \<Rightarrow> store \<Rightarrow> int \<Rightarrow> int \<Rightarrow> jsval \<Rightarrow> jsval \<Rightarrow> int option \<Rightarrow> int option
     \<Rightarrow> error + (store \<times> reconstruction)" where
  "reconstructHistory c s userId unitId currentRent yearlyIncreasePercent startYear startMonth =
     (if \<not> truthy currentRent \<or> \<not> truthy yearlyIncreasePercent then Inl RentAndIncreaseRequired
      else
        case getUnit s unitId of
          None \<Rightarrow> Inl UnitNotFound
        | Some unit \<Rightarrow>
            let sYear = orDefault startYear 2015;
                sMonth = orDefault startMonth 1;
                currentYear = nowYear c;
                currentMonth = nowMonth c;
                yearlyRents = yearlyRentsOf c currentRent yearlyIncreasePercent startYear
            in case yearLoop unitId yearlyIncreasePercent currentRent currentYear currentMonth
                      sYear sMonth yearlyRents s [] of
                 (s1, created) \<Rightarrow>
                   Inr (createAuditLog s1
                          \<lparr>al_userId = userId, al_action = ''reconstruct_history'',
                           al_tableName = ''rent_invoices'', al_recordId = unitId\<rparr>,
                        \<lparr>rc_generated = length created, rc_yearlyRents = yearlyRents,
                         rc_invoices = created\<rparr>))"

subsection \<open>POST /api/properties/:propertyId/calculate-settlements\<close>








subsection \<open>POST /api/payments\<close>

text \<open>
  The candidate test of the matcher. The amount of a payment is a non-null decimal column,
  read back as a non-empty string, so \<^verbatim>\<open>payment.amount &&\<close> always passes; the tenant name
  has to be present and non-empty.
\<close>

definition amountMatch :: "payment \<Rightarrow> invoice \<Rightarrow> bool" where
  "amountMatch p invoice =
     (if inv_status invoice = Paid then False
      else jlt (jabs (jsub (inv_amount invoice) (pay_amount p))) (Fin 1))"

definition nameGiven :: "payment \<Rightarrow> bool" where
  "nameGiven p = (case pay_tenantName p of None \<Rightarrow> False | Some n \<Rightarrow> n \<noteq> [])"

definition recordPayment :: "store \<Rightarrow> int \<Rightarrow> insert_payment \<Rightarrow> store \<times> payment" where
  "recordPayment s userId data =
     (case createPayment s data of
        (s1, p) \<Rightarrow>
          let (s2, p') =
                (if nameGiven p then
                   (case find (amountMatch p) (getRentInvoices s1) of
                      None \<Rightarrow> (s1, p)
                    | Some m \<Rightarrow>
                        let sa = updatePayment s1 (pay_id p)
                                   (\<lambda>r. r\<lparr>pay_matchedInvoiceId := Some (inv_id m),
                                           pay_status := Matched\<rparr>);
                            sb = fst (updateRentInvoice sa (inv_id m)
                                   (\<lambda>r. r\<lparr>inv_status := Paid,
                                           inv_paidAmount := Some (pay_amount p),
                                           inv_paidDate := Some (pay_date p)\<rparr>))
                        in (sb, p\<lparr>pay_status := Matched,
                                   pay_matchedInvoiceId := Some (inv_id m)\<rparr>))
                 else (s1, p))
          in (createAuditLog s2
                \<lparr>al_userId = userId, al_action = ''add_payment'', al_tableName = ''payments'',
                 al_recordId = pay_id p\<rparr>, p'))"

subsection \<open>Notions used in the statements\<close>



text \<open>Rows as the identity column numbers them, starting at \<open>n\<close>.\<close>

fun numberedSettlements :: "int \<Rightarrow> owner_settlement list \<Rightarrow> owner_settlement list" where
  "numberedSettlements n [] = []"
| "numberedSettlements n (r # rs) = r\<lparr>os_id := n\<rparr> # numberedSettlements (n + 1) rs"

fun numberedInvoices :: "int \<Rightarrow> invoice list \<Rightarrow> invoice list" where
  "numberedInvoices n [] = []"
| "numberedInvoices n (r # rs) = r\<lparr>inv_id := n\<rparr> # numberedInvoices (n + 1) rs"

text \<open>
  The invoice a generation run owes a tenant: none for an inactive tenant, for a tenant who
  already has an invoice of the period, or for a tenant whose unit is missing.
\<close>

definition newInvoiceFor :: "store \<Rightarrow> int \<Rightarrow> int \<Rightarrow> tenant \<Rightarrow> invoice option" where
  "newInvoiceFor s month year t =
     (if t_isActive t = 1 \<and>
         t_id t \<notin> inv_tenantId ` set (getRentInvoicesByMonth s month year)
      then map_option (generatedInvoice month year t) (getUnit s (t_unitId t))
      else None)"

text \<open>
  A month of a year needs no historical invoice for a unit: an invoice of the unit exists
  for it, or the unit has no tenant row.
\<close>

definition monthCovered :: "store \<Rightarrow> int \<Rightarrow> int \<Rightarrow> int \<Rightarrow> bool" where
  "monthCovered s unitId m year =
     ((\<exists>i \<in> set (rentInvoices s). inv_unitId i = unitId \<and> inv_month i = m \<and> inv_year i = year) \<or>
      getTenantsByUnit s unitId = [])"

text \<open>The ledger \<open>s'\<close> has the units and tenants of \<open>s\<close> and at least its invoices.\<close>

definition ledgerGrows :: "store \<Rightarrow> store \<Rightarrow> bool" where
  "ledgerGrows s s' =
     (tenants s' = tenants s \<and> units s' = units s \<and>
      set (rentInvoices s) \<subseteq> set (rentInvoices s'))"

subsection \<open>Example ledgers\<close>

text \<open>Noon of 5 March 2025.\<close>

definition noonOfFifth :: clock where
  "noonOfFifth =
     \<lparr>nowYear = 2025, nowMonth = 3, nowDay = 5, nowMsOfDay = 43200000,
      nowIsoDate = ''2025-03-05''\<rparr>"

text \<open>An unpaid invoice of 1000 for March 2025; the tenant's rent is due on the 5th.\<close>

definition marchInvoice :: invoice where
  "marchInvoice =
     \<lparr>inv_id = 1, inv_tenantId = 1, inv_unitId = 1, inv_month = 3, inv_year = 2025,
      inv_amount = Fin 1000, inv_status = Unpaid, inv_paidAmount = Some (Fin 0),
      inv_paidDate = None, inv_paymentMethod = None,
      inv_receiptNumber = Some ''INV-202503-1'', inv_isHistorical = 0, inv_notes = None\<rparr>"

definition smallLedger :: store where
  "smallLedger =
     \<lparr>units = [\<lparr>u_id = 1, u_propertyId = 1, u_monthlyRent = Fin 1000\<rparr>],
      tenants = [\<lparr>t_id = 1, t_unitId = 1, t_rentDueDay = 5, t_isActive = 1\<rparr>],
      rentInvoices = [marchInvoice],
      propertyUsers = [], ownerSettlements = [], payments = [], auditLogs = [],
      nextInvoiceId = 2, nextSettlementId = 1, nextPaymentId = 1\<rparr>"

text \<open>
  A property with two units and two approved owners at 60 and 40 percent. For March 2025
  one invoice of 80000 was paid in full but late, the other, of 20000, was paid in time.
  A third tenant points to a unit that does not exist, a fourth is inactive; a unit of
  another property has no tenant.
\<close>

definition lateInvoice :: invoice where
  "lateInvoice =
     \<lparr>inv_id = 1, inv_tenantId = 1, inv_unitId = 1, inv_month = 3, inv_year = 2025,
      inv_amount = Fin 80000, inv_status = Late, inv_paidAmount = Some (Fin 80000),
      inv_paidDate = Some ''2025-03-20'', inv_paymentMethod = Some ''cash'',
      inv_receiptNumber = Some ''INV-202503-1'', inv_isHistorical = 0, inv_notes = None\<rparr>"

definition paidInvoice :: invoice where
  "paidInvoice =
     \<lparr>inv_id = 2, inv_tenantId = 2, inv_unitId = 2, inv_month = 3, inv_year = 2025,
      inv_amount = Fin 20000, inv_status = Paid, inv_paidAmount = Some (Fin 20000),
      inv_paidDate = Some ''2025-03-01'', inv_paymentMethod = Some ''cash'',
      inv_receiptNumber = Some ''INV-202503-2'', inv_isHistorical = 0, inv_notes = None\<rparr>"

definition ownersLedger :: store where
  "ownersLedger =
     \<lparr>units = [\<lparr>u_id = 1, u_propertyId = 1, u_monthlyRent = Fin 80000\<rparr>,
               \<lparr>u_id = 2, u_propertyId = 1, u_monthlyRent = Fin 20000\<rparr>,
               \<lparr>u_id = 3, u_propertyId = 2, u_monthlyRent = Fin 5000\<rparr>],
      tenants = [\<lparr>t_id = 1, t_unitId = 1, t_rentDueDay = 5, t_isActive = 1\<rparr>,
                 \<lparr>t_id = 2, t_unitId = 2, t_rentDueDay = 1, t_isActive = 1\<rparr>,
                 \<lparr>t_id = 3, t_unitId = 9, t_rentDueDay = 1, t_isActive = 1\<rparr>,
                 \<lparr>t_id = 4, t_unitId = 2, t_rentDueDay = 1, t_isActive = 0\<rparr>],
      rentInvoices = [lateInvoice, paidInvoice],
      propertyUsers =
        [\<lparr>pu_id = 1, pu_userId = 10, pu_propertyId = 1, pu_role = PropertyOwner,
          pu_status = Approved, pu_ownershipPercent = Some (Fin 60)\<rparr>,
         \<lparr>pu_id = 2, pu_userId = 11, pu_propertyId = 1, pu_role = CoOwner,
          pu_status = Approved, pu_ownershipPercent = Some (Fin 40)\<rparr>,
         \<lparr>pu_id = 3, pu_userId = 12, pu_propertyId = 1, pu_role = Accountant,
          pu_status = Approved, pu_ownershipPercent = Some (Fin 0)\<rparr>],
      ownerSettlements = [], payments = [], auditLogs = [],
      nextInvoiceId = 3, nextSettlementId = 1, nextPaymentId = 1\<rparr>"

text \<open>A bank payment of 79999.50 entered under a tenant's name.\<close>

definition bankPayment :: insert_payment where
  "bankPayment =
     \<lparr>ip_amount = Fin (159999 / 2), ip_date = ''2025-04-02'', ip_matchedInvoiceId = None,
      ip_status = None, ip_tenantName = Some ''Ahmed Khan''\<rparr>"

section \<open>Properties\<close>

subsection \<open>Auxiliary facts\<close>

lemmas parse_defs = parseFloatStr_def isDigit_def isSpace_def digitsValue_def scale10_def

lemmas date_defs = clockTime_def newDate_def makeDay_def daysFromCivil_def msPerDay_def



lemma smallLedger_invoice: "getRentInvoice smallLedger 1 = Some marchInvoice"
  by (simp add: getRentInvoice_def smallLedger_def marchInvoice_def)

text \<open>
  Paying the March invoice of the small ledger at noon of the 5th, the due day: an accepted
  amount that covers the invoice is marked late, a smaller one partial.
\<close>

lemma payInvoice_smallLedger:
  "truthy v \<Longrightarrow> parseFloat v = Fin p \<Longrightarrow> 0 \<le> p \<Longrightarrow> p \<le> 1000 \<Longrightarrow>
   map_sum id snd (payInvoice noonOfFifth smallLedger 7 1 v None) =
     Inr (Some (marchInvoice\<lparr>inv_status := (if p = 1000 then Late else Partial),
                  inv_paidAmount := Some (Fin p),
                  inv_paidDate := Some ''2025-03-05'', inv_paymentMethod := Some ''cash''\<rparr>))"
  by (simp add: payInvoice_def getRentInvoice_def getTenant_def smallLedger_def marchInvoice_def
        noonOfFifth_def Let_def jgt_def jge_def updateRentInvoice_def createAuditLog_def date_defs)

text \<open>
  The status the route gives an accepted payment: \<open>partial\<close> below the invoice amount;
  otherwise \<open>late\<close> when the instant of the request is later than local midnight at the
  start of the due day, and \<open>paid\<close> when it is not.
\<close>

lemma payInvoice_status_rule:
  assumes "getRentInvoice s i = Some invoice" and "inv_amount invoice = Fin a"
    and "truthy v" and "parseFloat v = Fin p" and "0 \<le> p" and "p \<le> a"
  shows "\<exists>s' r. payInvoice c s u i v pm = Inr (s', Some r) \<and>
           inv_paidAmount r = Some (Fin p) \<and>
           inv_status r =
             (if p < a then Partial
              else if dateGt (clockTime c)
                        (newDate (inv_year invoice) (inv_month invoice - 1)
                           (case getTenant s (inv_tenantId invoice) of
                              None \<Rightarrow> 1
                            | Some t \<Rightarrow> if t_rentDueDay t = 0 then 1 else t_rentDueDay t))
                   then Late else Paid)"
proof -
  have f: "find (\<lambda>r. inv_id r = inv_id invoice) (rentInvoices s) = Some invoice"
    using assms(1) by (auto simp: getRentInvoice_def find_Some_iff)
  show ?thesis
    using assms f
    by (auto simp: payInvoice_def Let_def jgt_def jge_def updateRentInvoice_def)
qed

subsection \<open>Payment processor\<close>

text \<open>
  Claim C1. For a payment that covers the invoice the status is to be \<open>late\<close> when the
  current date is after the due date and \<open>paid\<close> otherwise, so that paying 1000 on or before
  the 5th gives \<open>paid\<close>. The route compares the instant of the request with local midnight
  at the start of the due day: the invoice of 1000 for March 2025, due on the 5th and paid in
  full at noon of 5 March 2025, is marked \<open>late\<close>.
\<close>

theorem payInvoice_on_due_day:
  "map_sum id snd (payInvoice noonOfFifth smallLedger 7 1 (JString ''1000'') None) =
     Inr (Some \<lparr>inv_id = 1, inv_tenantId = 1, inv_unitId = 1, inv_month = 3, inv_year = 2025,
                 inv_amount = Fin 1000, inv_status = Late, inv_paidAmount = Some (Fin 1000),
                 inv_paidDate = Some ''2025-03-05'', inv_paymentMethod = Some ''cash'',
                 inv_receiptNumber = Some ''INV-202503-1'', inv_isHistorical = 0,
                 inv_notes = None\<rparr>)"
  using payInvoice_smallLedger [of "JString ''1000''" 1000]
  by (simp add: parse_defs marchInvoice_def)



text \<open>
  Claim C9, as stated: a zero-amount partial payment can never be recorded. The amount field
  of the client is a string, and the non-empty string \<^verbatim>\<open>"0"\<close> is truthy: it is parsed to 0
  and the invoice of 1000 becomes \<open>partial\<close> with a paid amount of 0.
\<close>

theorem payInvoice_zero_string_counterexample:
  "map_sum id snd (payInvoice noonOfFifth smallLedger 7 1 (JString ''0'') None) =
     Inr (Some \<lparr>inv_id = 1, inv_tenantId = 1, inv_unitId = 1, inv_month = 3, inv_year = 2025,
                 inv_amount = Fin 1000, inv_status = Partial, inv_paidAmount = Some (Fin 0),
                 inv_paidDate = Some ''2025-03-05'', inv_paymentMethod = Some ''cash'',
                 inv_receiptNumber = Some ''INV-202503-1'', inv_isHistorical = 0,
                 inv_notes = None\<rparr>)"
  using payInvoice_smallLedger [of "JString ''0''" 0]
  by (simp add: parse_defs marchInvoice_def)

text \<open>
  Claim C9, amended. A falsy \<open>paidAmount\<close> (the number 0, \<open>NaN\<close>, the empty string, \<open>null\<close>,
  \<open>false\<close>) is treated as an omitted one; on an invoice whose amount is not negative the call
  then succeeds and records the full invoice amount with status \<open>paid\<close> or \<open>late\<close>, so no
  falsy amount records a zero-amount partial payment.
\<close>

theorem payInvoice_falsy_amount_defaults:
  "\<not> truthy v \<longrightarrow>
     payInvoice c s u i v pm = payInvoice c s u i JUndefined pm \<and>
     (getRentInvoice s i = Some invoice \<and> inv_amount invoice = Fin a \<and> 0 \<le> a \<longrightarrow>
        (\<exists>s' r. payInvoice c s u i v pm = Inr (s', Some r) \<and> inv_id r = i \<and>
           inv_paidAmount r = Some (Fin a) \<and> (inv_status r = Paid \<or> inv_status r = Late)))"
proof (intro impI conjI)
  assume f: "\<not> truthy v"
  then show "payInvoice c s u i v pm = payInvoice c s u i JUndefined pm"
    by (cases "getRentInvoice s i") (simp_all add: payInvoice_def)
  assume h: "getRentInvoice s i = Some invoice \<and> inv_amount invoice = Fin a \<and> 0 \<le> a"
  then have g: "find (\<lambda>r. inv_id r = i) (rentInvoices s) = Some invoice" and "inv_id invoice = i"
    by (auto simp: getRentInvoice_def find_Some_iff)
  with f h show "\<exists>s' r. payInvoice c s u i v pm = Inr (s', Some r) \<and> inv_id r = i \<and>
           inv_paidAmount r = Some (Fin a) \<and> (inv_status r = Paid \<or> inv_status r = Late)"
    by (simp add: payInvoice_def Let_def jgt_def jge_def updateRentInvoice_def)
qed

theorem payInvoice_falsy_amount_defaults_witness:
  "\<not> truthy (JNumber (Fin 0)) \<and> \<not> truthy (JString []) \<and>
   getRentInvoice smallLedger 1 = Some marchInvoice \<and> inv_amount marchInvoice = Fin 1000 \<and>
   payInvoice noonOfFifth smallLedger 7 1 (JNumber (Fin 0)) None =
     payInvoice noonOfFifth smallLedger 7 1 JUndefined None \<and>
   payInvoice noonOfFifth smallLedger 7 1 (JString []) None =
     payInvoice noonOfFifth smallLedger 7 1 JUndefined None \<and>
   (\<exists>s' r. payInvoice noonOfFifth smallLedger 7 1 (JNumber (Fin 0)) None = Inr (s', Some r) \<and>
      inv_id r = 1 \<and> inv_paidAmount r = Some (Fin 1000) \<and>
      (inv_status r = Paid \<or> inv_status r = Late))"
proof -
  have b: "inv_amount marchInvoice = Fin 1000"
    by (simp add: marchInvoice_def)
  note t = payInvoice_falsy_amount_defaults [where c = noonOfFifth and s = smallLedger and u = 7
             and i = 1 and pm = None and invoice = marchInvoice and a = 1000]
  have n1: "\<not> truthy (JNumber (Fin 0))" and n2: "\<not> truthy (JString [])"
    by simp_all
  have q: "getRentInvoice smallLedger 1 = Some marchInvoice \<and> inv_amount marchInvoice = Fin 1000 \<and>
           (0::rat) \<le> 1000"
    using smallLedger_invoice b by simp
  show ?thesis
    using t [where v = "JNumber (Fin 0)"] t [where v = "JString []"] n1 n2 q
    by blast
qed

subsection \<open>Auto-matcher\<close>


lemma find_first:
  "find P xs = Some m \<Longrightarrow> \<exists>k<length xs. xs ! k = m \<and> P m \<and> (\<forall>j<k. \<not> P (xs ! j))"
  by (auto simp: find_Some_iff)


lemma getRentInvoices_createPayment:
  "getRentInvoices (fst (createPayment s d)) = getRentInvoices s"
  by (simp add: getRentInvoices_def createPayment_def Let_def)


lemma recordPayment_Some:
  assumes "ip_tenantName d = Some n" "n \<noteq> []"
    and "find (amountMatch (snd (createPayment s d))) (getRentInvoices s) = Some m"
  shows "recordPayment s u d =
     (s\<lparr>payments :=
          map (\<lambda>r. if pay_id r = nextPaymentId s
                    then r\<lparr>pay_matchedInvoiceId := Some (inv_id m), pay_status := Matched\<rparr>
                    else r) (payments s @ [snd (createPayment s d)]),
        nextPaymentId := nextPaymentId s + 1,
        rentInvoices :=
          map (\<lambda>r. if inv_id r = inv_id m
                    then r\<lparr>inv_status := Paid, inv_paidAmount := Some (ip_amount d),
                           inv_paidDate := Some (ip_date d)\<rparr>
                    else r) (rentInvoices s),
        auditLogs := auditLogs s @
          [\<lparr>al_userId = u, al_action = ''add_payment'', al_tableName = ''payments'',
            al_recordId = nextPaymentId s\<rparr>]\<rparr>,
      (snd (createPayment s d))\<lparr>pay_status := Matched, pay_matchedInvoiceId := Some (inv_id m)\<rparr>)"
proof -
  obtain s1 p where c: "createPayment s d = (s1, p)" by (cases "createPayment s d")
  have g: "getRentInvoices s1 = getRentInvoices s"
    using getRentInvoices_createPayment [of s d] c by simp
  have n: "nameGiven p" using c assms(1,2)
    by (auto simp: createPayment_def Let_def nameGiven_def)
  show ?thesis
    using assms(3) c g n
    by (auto simp: recordPayment_def createPayment_def Let_def createAuditLog_def
          updatePayment_def updateRentInvoice_def)
qed

lemma ownersLedger_candidates: "getRentInvoices ownersLedger = [lateInvoice, paidInvoice]"
  by (simp add: getRentInvoices_def ownersLedger_def lateInvoice_def paidInvoice_def)

lemma bankPayment_row:
  "snd (createPayment ownersLedger (bankPayment\<lparr>ip_amount := Fin a\<rparr>)) =
     \<lparr>pay_id = 1, pay_amount = Fin a, pay_date = ''2025-04-02'', pay_matchedInvoiceId = None,
      pay_status = Unmatched, pay_tenantName = Some ''Ahmed Khan''\<rparr>"
  by (simp add: createPayment_def ownersLedger_def bankPayment_def Let_def)

lemma bankPayment_find:
  "find (amountMatch (snd (createPayment ownersLedger (bankPayment\<lparr>ip_amount := Fin a\<rparr>))))
     (getRentInvoices ownersLedger) = (if \<bar>80000 - a\<bar> < 1 then Some lateInvoice else None)"
  by (simp add: ownersLedger_candidates bankPayment_row amountMatch_def jsub_def
        lateInvoice_def paidInvoice_def)



text \<open>
  Claim C10. The candidate test excludes only the status \<open>paid\<close>. In the owners' ledger the
  invoice of 80000 is \<open>late\<close> and already paid in full; a new payment of 79999.50 matches it,
  marks it \<open>paid\<close> again and overwrites its paid amount and paid date with the payment's.
\<close>

theorem late_invoice_rematched:
  "inv_status lateInvoice = Late \<and>
   inv_paidAmount lateInvoice = Some (inv_amount lateInvoice) \<and>
   lateInvoice \<in> set (rentInvoices ownersLedger) \<and>
   amountMatch (snd (createPayment ownersLedger bankPayment)) lateInvoice \<and>
   snd (recordPayment ownersLedger 7 bankPayment) =
     \<lparr>pay_id = 1, pay_amount = Fin (159999 / 2), pay_date = ''2025-04-02'',
      pay_matchedInvoiceId = Some 1, pay_status = Matched,
      pay_tenantName = Some ''Ahmed Khan''\<rparr> \<and>
   rentInvoices (fst (recordPayment ownersLedger 7 bankPayment)) =
     [lateInvoice\<lparr>inv_status := Paid, inv_paidAmount := Some (Fin (159999 / 2)),
                   inv_paidDate := Some ''2025-04-02''\<rparr>, paidInvoice]"
proof -
  have b: "bankPayment\<lparr>ip_amount := Fin (159999 / 2)\<rparr> = bankPayment"
    by (simp add: bankPayment_def)
  have f: "find (amountMatch (snd (createPayment ownersLedger bankPayment)))
             (getRentInvoices ownersLedger) = Some lateInvoice"
    using bankPayment_find [of "159999 / 2"] by (simp add: b)
  have n: "ip_tenantName bankPayment = Some ''Ahmed Khan''" and m: "''Ahmed Khan'' \<noteq> []"
    by (simp_all add: bankPayment_def)
  have r: "rentInvoices ownersLedger = [lateInvoice, paidInvoice]"
    by (simp add: ownersLedger_def)
  have i: "inv_id lateInvoice = 1" "inv_id paidInvoice = 2"
    by (simp_all add: lateInvoice_def paidInvoice_def)
  have d: "ip_date bankPayment = ''2025-04-02''" "ip_amount bankPayment = Fin (159999 / 2)"
    by (simp_all add: bankPayment_def)
  have a: "amountMatch (snd (createPayment ownersLedger bankPayment)) lateInvoice"
    using find_first [OF f] by blast
  have 1: "inv_status lateInvoice = Late \<and>
           inv_paidAmount lateInvoice = Some (inv_amount lateInvoice)"
    by (simp add: lateInvoice_def)
  show ?thesis
    using bankPayment_row [of "159999 / 2"] a 1
    by (simp add: recordPayment_Some [OF n m f] r i d b)
qed

subsection \<open>Settlement calculator\<close>

lemma numberedSettlements_length [simp]: "length (numberedSettlements n rs) = length rs"
  by (induction rs arbitrary: n) auto














subsection \<open>Invoice generator\<close>

lemma numberedInvoices_length [simp]: "length (numberedInvoices n rs) = length rs"
  by (induction rs arbitrary: n) auto

lemma numberedInvoices_period:
  "map (\<lambda>r. (inv_tenantId r, inv_unitId r, inv_month r, inv_year r)) (numberedInvoices n rs) =
   map (\<lambda>r. (inv_tenantId r, inv_unitId r, inv_month r, inv_year r)) rs"
  by (induction rs arbitrary: n) auto

lemma numberedInvoices_append:
  "numberedInvoices n (xs @ ys) = numberedInvoices n xs @ numberedInvoices (n + int (length xs)) ys"
  by (induction xs arbitrary: n) (auto simp: algebra_simps)

lemma map_filter_Nil_iff: "List.map_filter f xs = [] \<longleftrightarrow> (\<forall>x \<in> set xs. f x = None)"
  by (auto simp: List.map_filter_def filter_empty_conv)

lemma map_filter_filter:
  "List.map_filter f (filter P xs) = List.map_filter (\<lambda>x. if P x then f x else None) xs"
  by (induction xs) (auto simp: List.map_filter_simps split: option.split)

lemma generateLoop_eq:
  "generateLoop m y ex ts s cr =
     (s\<lparr>rentInvoices := rentInvoices s @
            numberedInvoices (nextInvoiceId s)
              (List.map_filter (\<lambda>t. if t_id t \<in> set ex then None
                   else map_option (generatedInvoice m y t) (getUnit s (t_unitId t))) ts),
        nextInvoiceId := nextInvoiceId s +
            int (length (List.map_filter (\<lambda>t. if t_id t \<in> set ex then None
                   else map_option (generatedInvoice m y t) (getUnit s (t_unitId t))) ts))\<rparr>,
      cr @ numberedInvoices (nextInvoiceId s)
              (List.map_filter (\<lambda>t. if t_id t \<in> set ex then None
                   else map_option (generatedInvoice m y t) (getUnit s (t_unitId t))) ts))"
proof (induction ts arbitrary: s cr)
  case Nil
  show ?case by (simp add: List.map_filter_simps)
next
  case (Cons t ts)
  show ?case
  proof (cases "t_id t \<in> set ex")
    case True
    then show ?thesis by (simp add: Cons.IH List.map_filter_simps)
  next
    case False
    show ?thesis
    proof (cases "getUnit s (t_unitId t)")
      case None
      with False show ?thesis by (simp add: Cons.IH List.map_filter_simps)
    next
      case (Some unit)
      with False show ?thesis
        by (simp add: Cons.IH List.map_filter_simps createRentInvoice_def Let_def getUnit_def
              algebra_simps cong: if_cong)
    qed
  qed
qed


lemma generateInvoices_run:
  assumes "month \<noteq> 0" and "year \<noteq> 0"
  shows "generateInvoices s month year =
     Inr (s\<lparr>rentInvoices := rentInvoices s @
               numberedInvoices (nextInvoiceId s)
                 (List.map_filter (newInvoiceFor s month year) (tenants s)),
             nextInvoiceId := nextInvoiceId s +
               int (length (List.map_filter (newInvoiceFor s month year) (tenants s)))\<rparr>,
          numberedInvoices (nextInvoiceId s)
            (List.map_filter (newInvoiceFor s month year) (tenants s)))"
proof -
  have eq: "(\<lambda>t. if t_isActive t = 1
             then if t_id t \<in> inv_tenantId ` set (getRentInvoicesByMonth s month year)
                  then None
                  else map_option (generatedInvoice month year t) (getUnit s (t_unitId t))
             else None) = newInvoiceFor s month year"
    by (auto simp: newInvoiceFor_def fun_eq_iff)
  show ?thesis
    using assms
    by (simp add: generateInvoices_def Let_def generateLoop_eq map_filter_filter getTenants_def eq)
qed

lemma newInvoiceFor_fields:
  "newInvoiceFor s month year t = Some r \<Longrightarrow>
   inv_tenantId r = t_id t \<and> inv_month r = month \<and> inv_year r = year"
  by (auto simp: newInvoiceFor_def generatedInvoice_def split: if_splits)

lemma map_filter_set: "set (List.map_filter f xs) = {y. \<exists>x \<in> set xs. f x = Some y}"
  by (force simp: List.map_filter_def image_iff)

lemma numberedInvoices_set_period:
  "(\<lambda>r. (inv_tenantId r, inv_unitId r, inv_month r, inv_year r)) ` set (numberedInvoices n rs) =
   (\<lambda>r. (inv_tenantId r, inv_unitId r, inv_month r, inv_year r)) ` set rs"
  using numberedInvoices_period [of n rs, THEN arg_cong, of set] by simp

lemma generateInvoices_second:
  assumes "month \<noteq> 0" and "year \<noteq> 0"
    and "generateInvoices s month year = Inr (s1, created)"
  shows "generateInvoices s1 month year = Inr (s1, [])"
proof -
  define new where
    "new = numberedInvoices (nextInvoiceId s)
             (List.map_filter (newInvoiceFor s month year) (tenants s))"
  have s1: "s1 = s\<lparr>rentInvoices := rentInvoices s @ new,
                    nextInvoiceId := nextInvoiceId s +
                      int (length (List.map_filter (newInvoiceFor s month year) (tenants s)))\<rparr>"
    using assms(3) generateInvoices_run [OF assms(1,2), of s] by (auto simp: new_def)
  have none: "newInvoiceFor s1 month year t = None" if t: "t \<in> set (tenants s)" for t
  proof (rule ccontr)
    assume "newInvoiceFor s1 month year t \<noteq> None"
    then have act: "t_isActive t = 1"
      and nex: "t_id t \<notin> inv_tenantId ` set (getRentInvoicesByMonth s1 month year)"
      and un: "getUnit s1 (t_unitId t) \<noteq> None"
      by (auto simp: newInvoiceFor_def split: if_splits)
    have sub: "set (getRentInvoicesByMonth s month year) \<subseteq> set (getRentInvoicesByMonth s1 month year)"
      by (auto simp: s1 getRentInvoicesByMonth_def)
    with nex have nex0: "t_id t \<notin> inv_tenantId ` set (getRentInvoicesByMonth s month year)"
      by blast
    have "getUnit s (t_unitId t) \<noteq> None"
      using un by (simp add: s1 getUnit_def)
    with act nex0 obtain r where r: "newInvoiceFor s month year t = Some r"
      by (auto simp: newInvoiceFor_def)
    then have "r \<in> set (List.map_filter (newInvoiceFor s month year) (tenants s))"
      using t by (auto simp: map_filter_set)
    then have "(inv_tenantId r, inv_unitId r, inv_month r, inv_year r) \<in>
        (\<lambda>r. (inv_tenantId r, inv_unitId r, inv_month r, inv_year r)) ` set new"
      unfolding new_def numberedInvoices_set_period by blast
    then obtain r' where r': "r' \<in> set new" "inv_tenantId r' = inv_tenantId r"
      "inv_month r' = inv_month r" "inv_year r' = inv_year r"
      by auto
    with newInvoiceFor_fields [OF r]
    have "r' \<in> set (getRentInvoicesByMonth s1 month year)" "inv_tenantId r' = t_id t"
      by (auto simp: s1 getRentInvoicesByMonth_def)
    with nex show False by (metis image_eqI)
  qed
  have "List.map_filter (newInvoiceFor s1 month year) (tenants s1) = []"
    using none by (simp add: map_filter_Nil_iff s1)
  then show ?thesis
    using generateInvoices_run [OF assms(1,2), of s1] by simp
qed

lemma ownersLedger_new:
  "List.map_filter (newInvoiceFor ownersLedger 4 2025) (tenants ownersLedger) =
     [generatedInvoice 4 2025 \<lparr>t_id = 1, t_unitId = 1, t_rentDueDay = 5, t_isActive = 1\<rparr>
        \<lparr>u_id = 1, u_propertyId = 1, u_monthlyRent = Fin 80000\<rparr>,
      generatedInvoice 4 2025 \<lparr>t_id = 2, t_unitId = 2, t_rentDueDay = 1, t_isActive = 1\<rparr>
        \<lparr>u_id = 2, u_propertyId = 1, u_monthlyRent = Fin 20000\<rparr>]"
  by (simp add: List.map_filter_simps newInvoiceFor_def getRentInvoicesByMonth_def getUnit_def
        ownersLedger_def lateInvoice_def paidInvoice_def)

lemma receipts_april:
  "receiptNumber ''INV-'' 2025 4 1 = ''INV-202504-1'' \<and>
   receiptNumber ''INV-'' 2025 4 2 = ''INV-202504-2''"
  by (simp add: receiptNumber_def showInt_def padStart2_def digitChar_def)

text \<open>
  Claim C6. A run without month or year is rejected. Otherwise a run returns; it skips
  every active tenant whose id is on an invoice of the period and every active tenant whose
  unit is absent, and inserts for each other active tenant, in table order, one invoice with
  the unit's monthly rent as amount, status \<open>unpaid\<close>, paid amount 0 and the receipt number
  \<^verbatim>\<open>INV-{year}{month:02}-{tenantId}\<close> (the row of \<open>newInvoiceFor\<close>). A second run on the
  resulting ledger creates no invoice and leaves the ledger as it is.
\<close>

theorem generateInvoices_idempotent:
  "(month = 0 \<or> year = 0 \<longrightarrow> generateInvoices s month year = Inl MonthYearRequired) \<and>
   (month \<noteq> 0 \<and> year \<noteq> 0 \<longrightarrow>
      (\<exists>s1 created.
         generateInvoices s month year = Inr (s1, created) \<and>
         created = numberedInvoices (nextInvoiceId s)
                     (List.map_filter (newInvoiceFor s month year) (tenants s)) \<and>
         rentInvoices s1 = rentInvoices s @ created \<and>
         generateInvoices s1 month year = Inr (s1, [])))"
proof (intro conjI impI)
  assume "month = 0 \<or> year = 0"
  then show "generateInvoices s month year = Inl MonthYearRequired"
    by (auto simp: generateInvoices_def)
next
  assume h: "month \<noteq> 0 \<and> year \<noteq> 0"
  then have m: "month \<noteq> 0" and y: "year \<noteq> 0" by simp_all
  note run = generateInvoices_run [OF m y, of s]
  from generateInvoices_second [OF m y run] run
  show "\<exists>s1 created.
         generateInvoices s month year = Inr (s1, created) \<and>
         created = numberedInvoices (nextInvoiceId s)
                     (List.map_filter (newInvoiceFor s month year) (tenants s)) \<and>
         rentInvoices s1 = rentInvoices s @ created \<and>
         generateInvoices s1 month year = Inr (s1, [])"
    by simp
qed

theorem generateInvoices_idempotent_witness:
  "(4::int) \<noteq> 0 \<and> (2025::int) \<noteq> 0 \<and>
   generateInvoices ownersLedger 0 2025 = Inl MonthYearRequired \<and>
   (\<exists>s1 created.
      generateInvoices ownersLedger 4 2025 = Inr (s1, created) \<and>
      map (\<lambda>r. (inv_id r, inv_tenantId r, inv_amount r, inv_status r, inv_paidAmount r,
                inv_receiptNumber r)) created =
        [(3, 1, Fin 80000, Unpaid, Some (Fin 0), Some ''INV-202504-1''),
         (4, 2, Fin 20000, Unpaid, Some (Fin 0), Some ''INV-202504-2'')] \<and>
      rentInvoices s1 = [lateInvoice, paidInvoice] @ created \<and>
      generateInvoices s1 4 2025 = Inr (s1, []))"
proof -
  note t = generateInvoices_idempotent [of 4 2025 ownersLedger]
  have n: "nextInvoiceId ownersLedger = 3" "rentInvoices ownersLedger = [lateInvoice, paidInvoice]"
    by (simp_all add: ownersLedger_def)
  from t obtain s1 created where
    1: "generateInvoices ownersLedger 4 2025 = Inr (s1, created)" and
    2: "created = numberedInvoices (nextInvoiceId ownersLedger)
                    (List.map_filter (newInvoiceFor ownersLedger 4 2025) (tenants ownersLedger))" and
    3: "rentInvoices s1 = rentInvoices ownersLedger @ created" and
    4: "generateInvoices s1 4 2025 = Inr (s1, [])"
    by auto
  have 5: "map (\<lambda>r. (inv_id r, inv_tenantId r, inv_amount r, inv_status r, inv_paidAmount r,
                inv_receiptNumber r)) created =
        [(3, 1, Fin 80000, Unpaid, Some (Fin 0), Some ''INV-202504-1''),
         (4, 2, Fin 20000, Unpaid, Some (Fin 0), Some ''INV-202504-2'')]"
    using receipts_april by (simp add: 2 n ownersLedger_new generatedInvoice_def)
  have 6: "generateInvoices ownersLedger 0 2025 = Inl MonthYearRequired"
    using generateInvoices_idempotent [of 0 2025 ownersLedger] by simp
  show ?thesis
    using 1 3 4 5 6 n by auto
qed

subsection \<open>History reconstructor: backfilling\<close>

lemma ledgerGrows_refl: "ledgerGrows s s"
  by (simp add: ledgerGrows_def)

lemma ledgerGrows_trans: "ledgerGrows s s' \<Longrightarrow> ledgerGrows s' s'' \<Longrightarrow> ledgerGrows s s''"
  by (auto simp: ledgerGrows_def)

lemma monthCovered_grows:
  "monthCovered s unitId m y \<Longrightarrow> ledgerGrows s s' \<Longrightarrow> monthCovered s' unitId m y"
  by (auto simp: monthCovered_def ledgerGrows_def getTenantsByUnit_def)

lemma find_filter_None:
  "find P (filter Q xs) = None \<longleftrightarrow> \<not> (\<exists>x \<in> set xs. Q x \<and> P x)"
  by (auto simp: find_None_iff)

lemma monthStep_covered:
  "monthCovered s unitId m (yr_year yr) \<Longrightarrow> monthStep unitId yr p r m s = (s, None)"
proof -
  assume c: "monthCovered s unitId m (yr_year yr)"
  show ?thesis
  proof (cases "find (\<lambda>inv. inv_unitId inv = unitId) (getRentInvoicesByMonth s m (yr_year yr))")
    case (Some a)
    then show ?thesis by (simp add: monthStep_def)
  next
    case None
    then have "\<not> (\<exists>i \<in> set (rentInvoices s). inv_unitId i = unitId \<and> inv_month i = m \<and>
                   inv_year i = yr_year yr)"
      by (auto simp: getRentInvoicesByMonth_def find_None_iff)
    with c have "getTenantsByUnit s unitId = []"
      by (simp add: monthCovered_def)
    with None show ?thesis by (simp add: monthStep_def)
  qed
qed

lemma monthStep_result:
  "monthStep unitId yr p r m s = (s', x) \<Longrightarrow>
   ledgerGrows s s' \<and> monthCovered s' unitId m (yr_year yr)"
proof -
  assume st: "monthStep unitId yr p r m s = (s', x)"
  show ?thesis
  proof (cases "find (\<lambda>inv. inv_unitId inv = unitId) (getRentInvoicesByMonth s m (yr_year yr))")
    case (Some a)
    then have "a \<in> set (rentInvoices s)" "inv_unitId a = unitId" "inv_month a = m"
      "inv_year a = yr_year yr"
      by (auto simp: find_Some_iff getRentInvoicesByMonth_def dest: nth_mem)
    moreover from Some st have "s' = s" by (simp add: monthStep_def)
    ultimately show ?thesis
      by (auto simp: ledgerGrows_def monthCovered_def)
  next
    case None
    show ?thesis
    proof (cases "getTenantsByUnit s unitId")
      case Nil
      with None st have "s' = s" by (simp add: monthStep_def)
      with Nil show ?thesis by (simp add: ledgerGrows_def monthCovered_def)
    next
      case (Cons t ts)
      then obtain t' where
        "(case find (\<lambda>t. t_isActive t = 1) (getTenantsByUnit s unitId) of
            Some t \<Rightarrow> Some t
          | None \<Rightarrow> (case getTenantsByUnit s unitId of [] \<Rightarrow> None | t # _ \<Rightarrow> Some t)) = Some t'"
        by (cases "find (\<lambda>t. t_isActive t = 1) (getTenantsByUnit s unitId)") auto
      with None st have
        "s' = fst (createRentInvoice s (historicalInvoice unitId yr m t' p r))"
        by (simp add: monthStep_def Let_def split: prod.splits)
      then show ?thesis
        by (auto simp: createRentInvoice_def Let_def ledgerGrows_def monthCovered_def
              historicalInvoice_def)
    qed
  qed
qed

lemma monthLoop_covered:
  "(\<forall>k. m \<le> k \<and> k \<le> e \<longrightarrow> monthCovered s unitId k (yr_year yr)) \<Longrightarrow>
   monthLoop unitId yr p r m e s cr = (s, cr)"
proof (induction unitId yr p r m e s cr rule: monthLoop.induct)
  case (1 unitId yr p r m e s cr)
  show ?case
  proof (cases "m \<le> e")
    case False
    then show ?thesis by (subst monthLoop.simps) simp
  next
    case True
    with "1.prems" have c: "monthCovered s unitId m (yr_year yr)" by simp
    have st: "monthStep unitId yr p r m s = (s, None)"
      using monthStep_covered [OF c] .
    have "monthLoop unitId yr p r (m + 1) e s cr = (s, cr)"
      using "1.IH" [OF True st [symmetric]] "1.prems" by simp
    with True st show ?thesis
      by (subst monthLoop.simps) simp
  qed
qed

lemma monthLoop_result:
  "monthLoop unitId yr p r m e s cr = (s', cr') \<Longrightarrow>
   ledgerGrows s s' \<and> (\<forall>k. m \<le> k \<and> k \<le> e \<longrightarrow> monthCovered s' unitId k (yr_year yr))"
proof (induction unitId yr p r m e s cr rule: monthLoop.induct)
  case (1 unitId yr p r m e s cr)
  show ?case
  proof (cases "m \<le> e")
    case False
    with "1.prems" have "s' = s"
      by (subst (asm) monthLoop.simps) simp
    with False show ?thesis by (auto simp: ledgerGrows_refl)
  next
    case True
    obtain sa x where st: "monthStep unitId yr p r m s = (sa, x)"
      by (cases "monthStep unitId yr p r m s")
    from "1.prems" True st have
      lp: "monthLoop unitId yr p r (m + 1) e sa
             (case x of None \<Rightarrow> cr | Some invoice \<Rightarrow> cr @ [invoice]) = (s', cr')"
      by (subst (asm) monthLoop.simps) simp
    from "1.IH" [OF True st [symmetric] lp]
    have g: "ledgerGrows sa s'"
      and cov: "\<forall>k. m + 1 \<le> k \<and> k \<le> e \<longrightarrow> monthCovered s' unitId k (yr_year yr)"
      by simp_all
    from monthStep_result [OF st] have g0: "ledgerGrows s sa"
      and c0: "monthCovered sa unitId m (yr_year yr)" by simp_all
    have "monthCovered s' unitId m (yr_year yr)"
      using monthCovered_grows [OF c0 g] .
    moreover have "k = m \<or> m + 1 \<le> k" if "m \<le> k" for k :: int
      using that by arith
    ultimately have "\<forall>k. m \<le> k \<and> k \<le> e \<longrightarrow> monthCovered s' unitId k (yr_year yr)"
      using cov by blast
    with ledgerGrows_trans [OF g0 g] show ?thesis by simp
  qed
qed


lemma yearLoop_covered:
  "(\<forall>yr \<in> set yrs. \<forall>k. (if yr_year yr = sY then sM else 1) \<le> k \<and>
        k \<le> (if yr_year yr = cY then cM else 12) \<longrightarrow> monthCovered s unitId k (yr_year yr)) \<Longrightarrow>
   yearLoop unitId p r cY cM sY sM yrs s cr = (s, cr)"
proof (induction yrs arbitrary: cr)
  case Nil
  show ?case by simp
next
  case (Cons yr yrs)
  have "monthLoop unitId yr p r (if yr_year yr = sY then sM else 1)
          (if yr_year yr = cY then cM else 12) s cr = (s, cr)"
    using Cons.prems by (intro monthLoop_covered) simp
  moreover have "yearLoop unitId p r cY cM sY sM yrs s cr = (s, cr)"
    using Cons.prems by (intro Cons.IH) simp
  ultimately show ?case by (simp add: Let_def)
qed

lemma yearLoop_result:
  "yearLoop unitId p r cY cM sY sM yrs s cr = (s', cr') \<Longrightarrow>
   ledgerGrows s s' \<and>
   (\<forall>yr \<in> set yrs. \<forall>k. (if yr_year yr = sY then sM else 1) \<le> k \<and>
        k \<le> (if yr_year yr = cY then cM else 12) \<longrightarrow> monthCovered s' unitId k (yr_year yr))"
proof (induction yrs arbitrary: s cr)
  case Nil
  then show ?case by (simp add: ledgerGrows_refl)
next
  case (Cons yr yrs)
  obtain sa ca where ml: "monthLoop unitId yr p r (if yr_year yr = sY then sM else 1)
          (if yr_year yr = cY then cM else 12) s cr = (sa, ca)"
    by (cases "monthLoop unitId yr p r (if yr_year yr = sY then sM else 1)
          (if yr_year yr = cY then cM else 12) s cr")
  with Cons.prems have yl: "yearLoop unitId p r cY cM sY sM yrs sa ca = (s', cr')"
    by (simp add: Let_def)
  from monthLoop_result [OF ml] have g0: "ledgerGrows s sa"
    and c0: "\<forall>k. (if yr_year yr = sY then sM else 1) \<le> k \<and>
        k \<le> (if yr_year yr = cY then cM else 12) \<longrightarrow> monthCovered sa unitId k (yr_year yr)"
    by simp_all
  from Cons.IH [OF yl] have g: "ledgerGrows sa s'"
    and c: "\<forall>yr \<in> set yrs. \<forall>k. (if yr_year yr = sY then sM else 1) \<le> k \<and>
        k \<le> (if yr_year yr = cY then cM else 12) \<longrightarrow> monthCovered s' unitId k (yr_year yr)"
    by simp_all
  have "\<forall>k. (if yr_year yr = sY then sM else 1) \<le> k \<and>
        k \<le> (if yr_year yr = cY then cM else 12) \<longrightarrow> monthCovered s' unitId k (yr_year yr)"
    using c0 monthCovered_grows [OF _ g] by blast
  with c ledgerGrows_trans [OF g0 g] show ?case by simp
qed

lemma createAuditLog_grows: "ledgerGrows s (createAuditLog s entry)"
  by (simp add: ledgerGrows_def createAuditLog_def)

text \<open>
  Claim C7. With parameters that pass the checks and a unit that exists, a reconstruction
  returns, and a second one with the same parameters and the same clock, run on the
  resulting ledger, returns too, creates no invoice and leaves the invoices as they are.
  A month is skipped when any invoice of the unit exists for it, whoever its tenant is, and
  when the unit has no tenant row; in both cases nothing is written and nothing fails.
\<close>

theorem reconstructHistory_second_run:
  "(truthy cr \<and> truthy yip \<and> getUnit s unitId \<noteq> None \<longrightarrow>
      (\<exists>s1 r1 s2 r2.
         reconstructHistory c s u unitId cr yip sy sm = Inr (s1, r1) \<and>
         reconstructHistory c s1 u unitId cr yip sy sm = Inr (s2, r2) \<and>
         rc_generated r2 = 0 \<and> rc_invoices r2 = [] \<and> rentInvoices s2 = rentInvoices s1)) \<and>
   ((\<exists>i \<in> set (getRentInvoicesByMonth s m (yr_year yr)). inv_unitId i = unitId) \<longrightarrow>
      monthStep unitId yr yip cr m s = (s, None)) \<and>
   (getTenantsByUnit s unitId = [] \<longrightarrow> monthStep unitId yr yip cr m s = (s, None))"
proof (intro conjI impI)
  assume "\<exists>i \<in> set (getRentInvoicesByMonth s m (yr_year yr)). inv_unitId i = unitId"
  then have "monthCovered s unitId m (yr_year yr)"
    by (auto simp: monthCovered_def getRentInvoicesByMonth_def)
  then show "monthStep unitId yr yip cr m s = (s, None)"
    by (rule monthStep_covered)
next
  assume "getTenantsByUnit s unitId = []"
  then have "monthCovered s unitId m (yr_year yr)"
    by (simp add: monthCovered_def)
  then show "monthStep unitId yr yip cr m s = (s, None)"
    by (rule monthStep_covered)
next
  assume h: "truthy cr \<and> truthy yip \<and> getUnit s unitId \<noteq> None"
  define yrs where "yrs = yearlyRentsOf c cr yip sy"
  define entry where
    "entry = \<lparr>al_userId = u, al_action = ''reconstruct_history'',
              al_tableName = ''rent_invoices'', al_recordId = unitId\<rparr>"
  obtain sa created where yl:
    "yearLoop unitId yip cr (nowYear c) (nowMonth c) (orDefault sy 2015) (orDefault sm 1)
       yrs s [] = (sa, created)"
    by (cases "yearLoop unitId yip cr (nowYear c) (nowMonth c) (orDefault sy 2015)
                 (orDefault sm 1) yrs s []")
  define s1 where "s1 = createAuditLog sa entry"
  from h obtain unit where un: "getUnit s unitId = Some unit" by auto
  have first: "reconstructHistory c s u unitId cr yip sy sm =
      Inr (s1, \<lparr>rc_generated = length created, rc_yearlyRents = yrs, rc_invoices = created\<rparr>)"
    using h un yl by (simp add: reconstructHistory_def Let_def yrs_def s1_def entry_def)
  from yearLoop_result [OF yl] have g: "ledgerGrows s sa"
    and cov: "\<forall>yr \<in> set yrs. \<forall>k. (if yr_year yr = orDefault sy 2015 then orDefault sm 1 else 1) \<le> k \<and>
        k \<le> (if yr_year yr = nowYear c then nowMonth c else 12) \<longrightarrow>
        monthCovered sa unitId k (yr_year yr)"
    by simp_all
  have g1: "ledgerGrows sa s1"
    unfolding s1_def by (rule createAuditLog_grows)
  have cov1: "\<forall>yr \<in> set yrs. \<forall>k. (if yr_year yr = orDefault sy 2015 then orDefault sm 1 else 1) \<le> k \<and>
        k \<le> (if yr_year yr = nowYear c then nowMonth c else 12) \<longrightarrow>
        monthCovered s1 unitId k (yr_year yr)"
    using cov monthCovered_grows [OF _ g1] by blast
  have un1: "getUnit s1 unitId = Some unit"
    using un ledgerGrows_trans [OF g g1] by (simp add: getUnit_def ledgerGrows_def)
  have yl1: "yearLoop unitId yip cr (nowYear c) (nowMonth c) (orDefault sy 2015) (orDefault sm 1)
       yrs s1 [] = (s1, [])"
    using cov1 by (rule yearLoop_covered)
  have second: "reconstructHistory c s1 u unitId cr yip sy sm =
      Inr (createAuditLog s1 entry,
           \<lparr>rc_generated = 0, rc_yearlyRents = yrs, rc_invoices = []\<rparr>)"
    using h un1 yl1 by (simp add: reconstructHistory_def Let_def yrs_def entry_def)
  show "\<exists>s1 r1 s2 r2.
         reconstructHistory c s u unitId cr yip sy sm = Inr (s1, r1) \<and>
         reconstructHistory c s1 u unitId cr yip sy sm = Inr (s2, r2) \<and>
         rc_generated r2 = 0 \<and> rc_invoices r2 = [] \<and> rentInvoices s2 = rentInvoices s1"
    using first second by (simp add: createAuditLog_def)
qed

theorem reconstructHistory_second_run_witness:
  "truthy (JString ''45000'') \<and> truthy (JNumber (Fin 10)) \<and>
   getUnit ownersLedger 1 =
     Some \<lparr>u_id = 1, u_propertyId = 1, u_monthlyRent = Fin 80000\<rparr> \<and>
   (\<exists>s1 r1 s2 r2.
      reconstructHistory noonOfFifth ownersLedger 7 1 (JString ''45000'') (JNumber (Fin 10))
        None None = Inr (s1, r1) \<and>
      reconstructHistory noonOfFifth s1 7 1 (JString ''45000'') (JNumber (Fin 10))
        None None = Inr (s2, r2) \<and>
      rc_generated r2 = 0 \<and> rc_invoices r2 = [] \<and> rentInvoices s2 = rentInvoices s1) \<and>
   lateInvoice \<in> set (getRentInvoicesByMonth ownersLedger 3 2025) \<and> inv_unitId lateInvoice = 1 \<and>
   monthStep 1 \<lparr>yr_year = 2025, yr_rent = Fin 45000\<rparr> (JNumber (Fin 10)) (JString ''45000'') 3
     ownersLedger = (ownersLedger, None) \<and>
   getTenantsByUnit ownersLedger 3 = [] \<and>
   monthStep 3 \<lparr>yr_year = 2025, yr_rent = Fin 45000\<rparr> (JNumber (Fin 10)) (JString ''45000'') 2
     ownersLedger = (ownersLedger, None)"
proof -
  have u: "getUnit ownersLedger 1 =
     Some \<lparr>u_id = 1, u_propertyId = 1, u_monthlyRent = Fin 80000\<rparr>"
    by (simp add: getUnit_def ownersLedger_def)
  have i: "lateInvoice \<in> set (getRentInvoicesByMonth ownersLedger 3 2025)"
    "inv_unitId lateInvoice = 1"
    by (simp_all add: getRentInvoicesByMonth_def ownersLedger_def lateInvoice_def)
  have e: "\<exists>i \<in> set (getRentInvoicesByMonth ownersLedger 3
                (yr_year \<lparr>yr_year = 2025, yr_rent = Fin 45000\<rparr>)). inv_unitId i = 1"
    using i by auto
  have t: "getTenantsByUnit ownersLedger 3 = []"
    by (simp add: getTenantsByUnit_def ownersLedger_def)
  note a = reconstructHistory_second_run [where cr = "JString ''45000''" and yip = "JNumber (Fin 10)"
      and s = ownersLedger and c = noonOfFifth and u = 7 and sy = None and sm = None
      and yr = "\<lparr>yr_year = 2025, yr_rent = Fin 45000\<rparr>"]
  have 1: "\<exists>s1 r1 s2 r2.
      reconstructHistory noonOfFifth ownersLedger 7 1 (JString ''45000'') (JNumber (Fin 10))
        None None = Inr (s1, r1) \<and>
      reconstructHistory noonOfFifth s1 7 1 (JString ''45000'') (JNumber (Fin 10))
        None None = Inr (s2, r2) \<and>
      rc_generated r2 = 0 \<and> rc_invoices r2 = [] \<and> rentInvoices s2 = rentInvoices s1"
    using a [where unitId = 1 and m = 3] u by simp
  have 2: "monthStep 1 \<lparr>yr_year = 2025, yr_rent = Fin 45000\<rparr> (JNumber (Fin 10))
             (JString ''45000'') 3 ownersLedger = (ownersLedger, None)"
    using a [where unitId = 1 and m = 3] e by blast
  have 3: "monthStep 3 \<lparr>yr_year = 2025, yr_rent = Fin 45000\<rparr> (JNumber (Fin 10))
             (JString ''45000'') 2 ownersLedger = (ownersLedger, None)"
    using a [where unitId = 3 and m = 2] t by blast
  show ?thesis
    using u i t 1 2 3 by simp
qed

subsection \<open>History reconstructor: yearly rents\<close>

lemma jle_Fin [simp]: "jle (Fin a) (Fin b) = (a \<le> b)"
  by (auto simp: jle_def jge_def)












end
